theory Spec2Isabelle
  imports Main "HOL-Library.Sublist" "HOL-Library.AList"
begin

text \<open>
  A model of \<open>sap.adt\<close>, the client of the ADT HTTP interface of an ABAP system:
  the connection with its lazily created session, the lock, unlock and activate
  protocol of an ADT object, the table of object types and the metaclass that
  records the declaration order of class members. The HTTP transport (the
  \<open>requests\<close> library) is the boundary of the model: what is sent is logged and what
  the server answers is taken from a list of responses. Calls of the logger are
  left out; they change nothing the code reads.
\<close>

section \<open>Strings\<close>

text \<open>
  Python strings are modelled as \<open>string\<close>. \<open>str.upper\<close> and \<open>str.lower\<close> are
  modelled on the ASCII letters, which is what method names and ABAP object names
  consist of; every other character is left as it is.
\<close>

definition ascii_lowercase :: string where
  "ascii_lowercase = ''abcdefghijklmnopqrstuvwxyz''"

definition ascii_uppercase :: string where
  "ascii_uppercase = ''ABCDEFGHIJKLMNOPQRSTUVWXYZ''"

definition upper_char :: "char \<Rightarrow> char" where
  "upper_char c =
     (case map_of (zip ascii_lowercase ascii_uppercase) c of Some u \<Rightarrow> u | None \<Rightarrow> c)"

definition lower_char :: "char \<Rightarrow> char" where
  "lower_char c =
     (case map_of (zip ascii_uppercase ascii_lowercase) c of Some l \<Rightarrow> l | None \<Rightarrow> c)"

definition upper :: "string \<Rightarrow> string" where
  "upper s = map upper_char s"

definition lower :: "string \<Rightarrow> string" where
  "lower s = map lower_char s"

text \<open>The line feed, the one character that \<open>.\<close> of a Python regular expression
  does not match.\<close>

definition newline :: char where
  "newline = CHR 0x0A"

section \<open>HTTP data\<close>

text \<open>
  A Python \<open>dict\<close> of strings keeps its insertion order; it is an association list
  read with \<open>map_of\<close> and written with \<open>AList.update\<close>.
\<close>

type_synonym pydict = "(string \<times> string) list"

text \<open>\<open>d[k] = v\<close> for every pair of \<open>kvs\<close>, in order: a key that is already there
  keeps its place, a new key goes to the end.\<close>

definition dict_update :: "('k \<times> 'v) list \<Rightarrow> ('k \<times> 'v) list \<Rightarrow> ('k \<times> 'v) list" where
  "dict_update d kvs = foldl (\<lambda>d (k, v). AList.update k v d) d kvs"

text \<open>
  What the code reads of a \<open>requests\<close> response. \<open>resp.headers[name]\<close> is
  \<open>map_of (resp_headers resp) name\<close>, with \<open>None\<close> for the \<open>KeyError\<close> of a header
  that is not there.
\<close>

record response =
  resp_text :: string
  status_code :: int
  resp_headers :: pydict

text \<open>\<open>requests.Request(method, url, params=, data=, headers=)\<close>.\<close>

record request =
  req_method :: string
  req_url :: string
  req_params :: "pydict option"
  req_data :: "string option"
  req_headers :: "pydict option"

text \<open>
  A \<open>requests.Session\<close> object: \<open>sess_id\<close> is the identity of the object,
  \<open>sess_auth\<close> its \<open>auth\<close> attribute and \<open>sess_headers\<close> the session-wide headers
  the code sets (the defaults of the library are not listed).
\<close>

record session =
  sess_id :: nat
  sess_auth :: "(string \<times> string) option"
  sess_headers :: pydict

text \<open>
  The prepared request \<open>session.prepare_request(req)\<close> hands to \<open>session.send\<close>:
  the request's own fields, with the session's headers merged under the request's
  headers and the session's credentials attached.
\<close>

record prepared_request =
  prep_method :: string
  prep_url :: string
  prep_params :: "pydict option"
  prep_body :: "string option"
  prep_headers :: pydict
  prep_auth :: "(string \<times> string) option"

datatype error =
    SAPCliError string
  | HTTPRequestError prepared_request response
  | KeyError string
  | TypeError string
  | TransportError

text \<open>
  The network beyond \<open>session.send\<close>: \<open>sent\<close> logs every prepared request handed to
  \<open>send\<close>, in order; \<open>pending\<close> holds the responses the server is going to give, in
  order; \<open>sessions_created\<close> counts the \<open>requests.Session()\<close> objects constructed so
  far. A \<open>send\<close> with no response left is a transport failure (the exception
  \<open>requests\<close> raises when no response arrives).
\<close>

record net =
  sent :: "prepared_request list"
  pending :: "response list"
  sessions_created :: nat

definition merge_headers :: "pydict \<Rightarrow> pydict option \<Rightarrow> pydict" where
  "merge_headers sh rh = (case rh of None \<Rightarrow> sh | Some hs \<Rightarrow> dict_update sh hs)"

definition prepare_request :: "session \<Rightarrow> request \<Rightarrow> prepared_request" where
  "prepare_request s r =
     \<lparr>prep_method = req_method r, prep_url = req_url r, prep_params = req_params r,
      prep_body = req_data r, prep_headers = merge_headers (sess_headers s) (req_headers r),
      prep_auth = sess_auth s\<rparr>"

definition send :: "prepared_request \<Rightarrow> net \<Rightarrow> (error + response) \<times> net" where
  "send req n =
     (case pending n of
        [] \<Rightarrow> (Inl TransportError, n\<lparr>sent := sent n @ [req]\<rparr>)
      | r # rs \<Rightarrow> (Inr r, n\<lparr>sent := sent n @ [req], pending := rs\<rparr>))"

section \<open>Connection\<close>

record connection =
  adt_uri :: string
  base_url :: string
  query_args :: string
  user :: string
  auth :: "string \<times> string"
  conn_session :: "session option"

text \<open>\<open>Connection.__init__\<close>; \<open>port\<close> is \<open>None\<close> when the caller gives none.\<close>

definition Connection ::
  "string \<Rightarrow> string \<Rightarrow> string \<Rightarrow> string \<Rightarrow> string option \<Rightarrow> bool \<Rightarrow> connection" where
  "Connection host client usr password port ssl =
     (let protocol = (if ssl then ''https'' else ''http'');
          port' = (case port of
                     None \<Rightarrow> (if ssl then ''443'' else ''80'')
                   | Some p \<Rightarrow> p);
          uri = ''sap/bc/adt''
      in \<lparr>adt_uri = uri,
          base_url = protocol @ ''://'' @ host @ '':'' @ port' @ ''/'' @ uri,
          query_args = ''sap-client='' @ client @ ''&saml2=disabled'',
          user = usr,
          auth = (usr, password),
          conn_session = None\<rparr>)"

definition build_adt_url :: "connection \<Rightarrow> string \<Rightarrow> string" where
  "build_adt_url c uri = base_url c @ ''/'' @ uri @ ''?'' @ query_args c"

text \<open>
  \<open>Connection._execute_with_session\<close>: prepare, send once, raise
  \<open>HTTPRequestError(req, res)\<close> on a status of 400 or more, return the response
  otherwise.
\<close>

definition execute_with_session ::
  "session \<Rightarrow> string \<Rightarrow> string \<Rightarrow> pydict option \<Rightarrow> pydict option \<Rightarrow> string option
     \<Rightarrow> net \<Rightarrow> (error + response) \<times> net" where
  "execute_with_session s method url params headers body n =
     (let req = prepare_request s
                  \<lparr>req_method = upper method, req_url = url, req_params = params,
                   req_data = body, req_headers = headers\<rparr>
      in case send req n of
           (Inl e, n') \<Rightarrow> (Inl e, n')
         | (Inr res, n') \<Rightarrow>
             if status_code res \<ge> 400 then (Inl (HTTPRequestError req res), n')
             else (Inr res, n'))"

text \<open>
  \<open>Connection._get_session\<close>. The new session object is stored in the connection
  before the discovery request is sent, as in the source; the token is written into
  that object's headers after the request has returned.
\<close>

definition get_session :: "connection \<Rightarrow> net \<Rightarrow> (error + session) \<times> connection \<times> net" where
  "get_session c n =
     (case conn_session c of
        Some s \<Rightarrow> (Inr s, c, n)
      | None \<Rightarrow>
          (let s0 = \<lparr>sess_id = sessions_created n, sess_auth = Some (auth c), sess_headers = []\<rparr>;
               n0 = n\<lparr>sessions_created := Suc (sessions_created n)\<rparr>;
               c0 = c\<lparr>conn_session := Some s0\<rparr>;
               url = build_adt_url c0 ''core/discovery''
           in case execute_with_session s0 ''GET'' url None
                     (Some [(''x-csrf-token'', ''Fetch'')]) None n0 of
                (Inl e, n1) \<Rightarrow> (Inl e, c0, n1)
              | (Inr response, n1) \<Rightarrow>
                  (case map_of (resp_headers response) ''x-csrf-token'' of
                     None \<Rightarrow> (Inl (KeyError ''x-csrf-token''), c0, n1)
                   | Some tok \<Rightarrow>
                       (let s1 = s0\<lparr>sess_headers :=
                                      AList.update ''x-csrf-token'' tok (sess_headers s0)\<rparr>
                        in (Inr s1, c0\<lparr>conn_session := Some s1\<rparr>, n1)))))"

text \<open>\<open>Connection.execute\<close>.\<close>

definition execute ::
  "connection \<Rightarrow> net \<Rightarrow> string \<Rightarrow> string \<Rightarrow> pydict option \<Rightarrow> pydict option \<Rightarrow> string option
     \<Rightarrow> (error + response) \<times> connection \<times> net" where
  "execute c n method uri params headers body =
     (case get_session c n of
        (Inl e, c', n') \<Rightarrow> (Inl e, c', n')
      | (Inr s, c', n') \<Rightarrow>
          (case execute_with_session s method (build_adt_url c' uri) params headers body n' of
             (res, n'') \<Rightarrow> (res, c', n'')))"

section \<open>Request parameters\<close>

definition LOCK_ACCESS_MODE_MODIFY :: string where
  "LOCK_ACCESS_MODE_MODIFY = ''MODIFY''"

definition lock_params :: "string \<Rightarrow> pydict" where
  "lock_params access_mode = [(''_action'', ''LOCK''), (''accessMode'', access_mode)]"

definition unlock_params :: "string \<Rightarrow> pydict" where
  "unlock_params lock_handle = [(''_action'', ''UNLOCK''), (''lockHandle'', lock_handle)]"

definition activation_params :: pydict where
  "activation_params = [(''method'', ''activate''), (''preauditRequested'', ''true'')]"

section \<open>Object types\<close>

record ADTObjectType =
  code :: string
  basepath :: string
  xmlnamespace :: "string \<times> string"
  mimetype :: string
  typeuris :: pydict
  xmlname :: string

text \<open>
  \<open>ADTObjectType.get_uri_for_type\<close>: the \<open>KeyError\<close> of the dictionary lookup is
  turned into a \<open>SAPCliError\<close>. The message is a plain string literal in the source
  (not an f-string), so it is the same for every object type.
\<close>

definition get_uri_for_type :: "ADTObjectType \<Rightarrow> string \<Rightarrow> error + string" where
  "get_uri_for_type t mime =
     (case map_of (typeuris t) mime of
        Some u \<Rightarrow> Inr (''/'' @ u)
      | None \<Rightarrow> Inl (SAPCliError ''Object {type} does not support plain 'text' format''))"

definition Program_OBJTYPE :: ADTObjectType where
  "Program_OBJTYPE =
     \<lparr>code = ''PROG/P'',
      basepath = ''programs/programs'',
      xmlnamespace = (''program'', ''http://www.sap.com/adt/programs/programs''),
      mimetype = ''application/vnd.sap.adt.programs.programs.v2+xml'',
      typeuris = [(''text/plain'', ''source/main'')],
      xmlname = ''abapProgram''\<rparr>"

definition Class_OBJTYPE :: ADTObjectType where
  "Class_OBJTYPE =
     \<lparr>code = ''CLAS/OC'',
      basepath = ''oo/classes'',
      xmlnamespace = (''class'', ''http://www.sap.com/adt/oo/classes''),
      mimetype = ''application/vnd.sap.adt.oo.classes.v2+xml'',
      typeuris = [(''text/plain'', ''source/main'')],
      xmlname = ''abapClass''\<rparr>"

definition Package_OBJTYPE :: ADTObjectType where
  "Package_OBJTYPE =
     \<lparr>code = ''DEVC/K'',
      basepath = ''packages'',
      xmlnamespace = (''pak'', ''http://www.sap.com/adt/packages''),
      mimetype = ''application/vnd.sap.adt.packages.v1+xml'',
      typeuris = [],
      xmlname = ''package''\<rparr>"

section \<open>ADT objects\<close>

record ADTCoreData =
  package :: "string option"
  description :: "string option"
  language :: "string option"
  master_language :: "string option"
  master_system :: "string option"
  responsible :: "string option"
  package_reference :: "string option"

text \<open>
  An \<open>ADTObject\<close>: \<open>objtype\<close> is the \<open>OBJTYPE\<close> of its class, \<open>obj_lock\<close> the
  attribute \<open>_lock\<close> (\<open>None\<close> when the object is not locked). The connection the
  object refers to is shared with its caller, so it is passed to every operation and
  returned by it, together with the network.
\<close>

record ADTObject =
  objtype :: ADTObjectType
  obj_name :: string
  metadata :: ADTCoreData
  obj_lock :: "string option"

definition uri :: "ADTObject \<Rightarrow> string" where
  "uri self = basepath (objtype self) @ ''/'' @ lower (obj_name self)"

subsection \<open>The lock handle pattern\<close>

text \<open>
  \<open>re.match('.*<LOCK_HANDLE>(.*)</LOCK_HANDLE>.*', text)\<close> as the backtracking
  matcher runs it, in continuation-passing style. \<open>dot_star k acc s\<close> is a greedy
  \<open>.*\<close> at the start of \<open>s\<close>: it consumes characters other than the line feed, as
  many as it can, and gives the continuation \<open>k\<close> what it consumed (after \<open>acc\<close>) and
  the rest; when the continuation fails it gives one character back and tries again.
  \<open>lit p k\<close> matches the literal \<open>p\<close>. \<open>re.match\<close> anchors the pattern at the start
  of the text only. The result is group 1, or \<open>None\<close> when \<open>re.match\<close> returns
  \<open>None\<close>.
\<close>

fun dot_star :: "(string \<Rightarrow> string \<Rightarrow> 'a option) \<Rightarrow> string \<Rightarrow> string \<Rightarrow> 'a option" where
  "dot_star k acc [] = k acc []"
| "dot_star k acc (c # cs) =
     (if c = newline then k acc (c # cs)
      else (case dot_star k (acc @ [c]) cs of
              Some y \<Rightarrow> Some y
            | None \<Rightarrow> k acc (c # cs)))"

definition lit :: "string \<Rightarrow> (string \<Rightarrow> 'a option) \<Rightarrow> string \<Rightarrow> 'a option" where
  "lit p k s = (if prefix p s then k (drop (length p) s) else None)"

definition match_lock_handle :: "string \<Rightarrow> string option" where
  "match_lock_handle txt =
     dot_star (\<lambda>_. lit ''<LOCK_HANDLE>''
        (dot_star (\<lambda>g. lit ''</LOCK_HANDLE>''
           (dot_star (\<lambda>_ _. Some g) [])) [])) [] txt"

subsection \<open>lock, unlock, activate\<close>

definition lock_result_marker :: string where
  "lock_result_marker = ''dataname=com.sap.adt.lock.Result''"

definition lock_headers :: pydict where
  "lock_headers =
     [(''X-sap-adt-sessiontype'', ''stateful''),
      (''Accept'',
       ''application/vnd.sap.as+xml;charset=UTF-8;dataname=com.sap.adt.lock.result;q=0.8''
       @ '', '' @
       ''application/vnd.sap.as+xml;charset=UTF-8;dataname=com.sap.adt.lock.result2;q=0.9'')]"

definition already_locked :: "ADTObject \<Rightarrow> error" where
  "already_locked self = SAPCliError (''Object '' @ uri self @ '': already locked'')"

definition not_locked :: "ADTObject \<Rightarrow> error" where
  "not_locked self = SAPCliError (''Object '' @ uri self @ '': not locked'')"

text \<open>
  \<open>ADTObject.lock\<close>. A missing \<open>Content-Type\<close> header is the \<open>KeyError\<close> of
  \<open>resp.headers['Content-Type']\<close>; a text the pattern does not match is the
  \<open>TypeError\<close> of subscripting \<open>None\<close>.
\<close>

definition lock ::
  "ADTObject \<Rightarrow> connection \<times> net \<Rightarrow> (error + unit) \<times> ADTObject \<times> connection \<times> net" where
  "lock self cn =
     (case obj_lock self of
        Some _ \<Rightarrow> (Inl (already_locked self), self, cn)
      | None \<Rightarrow>
          (case execute (fst cn) (snd cn) ''POST'' (uri self)
                  (Some (lock_params LOCK_ACCESS_MODE_MODIFY)) (Some lock_headers) None of
             (Inl e, cn') \<Rightarrow> (Inl e, self, cn')
           | (Inr resp, cn') \<Rightarrow>
               (case map_of (resp_headers resp) ''Content-Type'' of
                  None \<Rightarrow> (Inl (KeyError ''Content-Type''), self, cn')
                | Some ct \<Rightarrow>
                    if \<not> sublist lock_result_marker ct
                    then (Inl (SAPCliError
                            (''Object '' @ uri self
                             @ '': lock response does not have lock result'' @ [newline]
                             @ resp_text resp)), self, cn')
                    else (case match_lock_handle (resp_text resp) of
                            None \<Rightarrow>
                              (Inl (TypeError (CHR 0x27 # ''NoneType' object is not subscriptable'')),
                               self, cn')
                          | Some h \<Rightarrow> (Inr (), self\<lparr>obj_lock := Some h\<rparr>, cn')))))"

text \<open>\<open>ADTObject.unlock\<close>.\<close>

definition unlock ::
  "ADTObject \<Rightarrow> connection \<times> net \<Rightarrow> (error + unit) \<times> ADTObject \<times> connection \<times> net" where
  "unlock self cn =
     (case obj_lock self of
        None \<Rightarrow> (Inl (not_locked self), self, cn)
      | Some h \<Rightarrow>
          (case execute (fst cn) (snd cn) ''POST'' (uri self)
                  (Some (unlock_params h)) (Some [(''X-sap-adt-sessiontype'', ''stateful'')])
                  None of
             (Inl e, cn') \<Rightarrow> (Inl e, self, cn')
           | (Inr _, cn') \<Rightarrow> (Inr (), self\<lparr>obj_lock := None\<rparr>, cn')))"

text \<open>\<open>ADTObject.activate\<close>.\<close>

definition activation_request :: "ADTObject \<Rightarrow> connection \<Rightarrow> string" where
  "activation_request self c =
     ''<?xml version=\"1.0\" encoding=\"UTF-8\"?>'' @ [newline]
     @ ''<adtcore:objectReferences xmlns:adtcore=\"http://www.sap.com/adt/core\">''
     @ [newline]
     @ ''<adtcore:objectReference adtcore:uri=\"/'' @ adt_uri c @ ''/'' @ uri self
     @ ''\" adtcore:name=\"'' @ upper (obj_name self) @ ''\"/>'' @ [newline]
     @ ''</adtcore:objectReferences>''"

definition activate ::
  "ADTObject \<Rightarrow> connection \<times> net \<Rightarrow> (error + unit) \<times> ADTObject \<times> connection \<times> net" where
  "activate self cn =
     (case execute (fst cn) (snd cn) ''POST'' ''activation''
             (Some activation_params)
             (Some [(''Accept'', ''application/xml''), (''Content-Type'', ''application/xml'')])
             (Some (activation_request self (fst cn))) of
        (Inl e, cn') \<Rightarrow> (Inl e, self, cn')
      | (Inr resp, cn') \<Rightarrow>
          if resp_text resp \<noteq> []
          then (Inl (SAPCliError
                  (''Could not activate the object '' @ obj_name self @ '': ''
                   @ resp_text resp)), self, cn')
          else (Inr (), self, cn'))"

section \<open>Ordered class members\<close>

text \<open>
  What a class body binds a name to: a property decorated with \<open>xml_attribute\<close> or
  \<open>xml_element\<close> (with the XML name given to the decorator), or anything else
  (methods, \<open>OBJTYPE\<close>, nested classes, the docstring, the class cell).
\<close>

datatype member = XmlAttribute string | XmlElement string | Other

text \<open>
  A class object: its name, its bases, its dictionary and \<open>cls_ordered\<close>, the value of
  its attribute \<open>__ordered__\<close> (\<open>None\<close> when \<open>hasattr(cls, '__ordered__')\<close> is false,
  as for a class that was not built by the metaclass).
\<close>

datatype py_class =
  PyClass (cls_name: string) (cls_bases: "py_class list")
          (cls_dict: "(string \<times> member) list") (cls_ordered: "string list option")

text \<open>\<open>parent.__ordered__\<close> behind \<open>hasattr(parent, '__ordered__')\<close>, for
  \<open>parent = bases[-1]\<close>.\<close>

definition inherited_members :: "py_class list \<Rightarrow> string list" where
  "inherited_members bases =
     (if bases \<noteq> [] then
        (case cls_ordered (last bases) of Some ms \<Rightarrow> ms | None \<Rightarrow> [])
      else [])"

definition own_members :: "(string \<times> member) list \<Rightarrow> string list" where
  "own_members classdict =
     [key \<leftarrow> map fst classdict. key \<notin> set [''__module__'', ''__qualname__'']]"

text \<open>
  \<open>OrderedClassMembers.__new__\<close>. The list of members is built from every key of the
  namespace but the two it names. \<open>type.__new__\<close> then makes the namespace the
  dictionary of the class and takes \<open>__qualname__\<close> and \<open>__classcell__\<close> out of it.
\<close>

definition OrderedClassMembers_new ::
  "string \<Rightarrow> py_class list \<Rightarrow> (string \<times> member) list \<Rightarrow> py_class" where
  "OrderedClassMembers_new name bases classdict =
     (let members = inherited_members bases @ own_members classdict
      in PyClass name bases
           [kv \<leftarrow> classdict. fst kv \<notin> set [''__qualname__'', ''__classcell__'']]
           (Some members))"

text \<open>
  A class statement under the metaclass, as CPython 3.6 to 3.12 runs it:
  \<open>__prepare__\<close> gives an empty \<open>OrderedDict\<close>; Python binds \<open>__module__\<close> and
  \<open>__qualname__\<close> in it; the body binds its names in the order of the source (a name
  bound again, as by a property setter, keeps its first place; a docstring binds
  \<open>__doc__\<close> first); after the body Python binds \<open>__classcell__\<close> when a method of
  the class names \<open>super\<close> or \<open>__class__\<close> (\<open>names_super\<close>), as the constructors of
  \<open>Program\<close>, \<open>Class\<close> and \<open>Package\<close> do; and \<open>__new__\<close> builds the class from the
  namespace.
\<close>

definition prepare :: "(string \<times> member) list" where
  "prepare = []"

definition classcell :: "bool \<Rightarrow> (string \<times> member) list" where
  "classcell names_super = (if names_super then [(''__classcell__'', Other)] else [])"

definition class_body :: "bool \<Rightarrow> (string \<times> member) list \<Rightarrow> (string \<times> member) list" where
  "class_body names_super stmts =
     dict_update prepare
       ([(''__module__'', Other), (''__qualname__'', Other)] @ stmts @ classcell names_super)"

definition define_class ::
  "string \<Rightarrow> py_class list \<Rightarrow> bool \<Rightarrow> (string \<times> member) list \<Rightarrow> py_class" where
  "define_class name bases names_super stmts =
     OrderedClassMembers_new name bases (class_body names_super stmts)"

text \<open>A class that is not built by the metaclass has no \<open>__ordered__\<close>.\<close>

definition plain_class :: "string \<Rightarrow> (string \<times> member) list \<Rightarrow> py_class" where
  "plain_class name stmts = PyClass name [] (dict_update [] stmts) None"

text \<open>
  The names a list of bindings declares, each at the place of its first binding,
  without the two names the metaclass leaves out.
\<close>

definition declared :: "(string \<times> member) list \<Rightarrow> string list" where
  "declared stmts =
     [key \<leftarrow> rev (remdups (rev (map fst stmts))).
        key \<notin> set [''__module__'', ''__qualname__'']]"

text \<open>
  Modelled from the spec: \<open>sap.adt.marshalling\<close> (the class \<open>Marshal\<close> that
  \<open>ADTObject.create\<close> calls) is not among the sources. Section 4.1 of the
  specification: the marshaller walks the member registry of the object's class in
  order and emits, for each member, its XML attribute or child element, or nothing
  when the member is not serialized or its value is absent. What the member of a
  name emits is the parameter \<open>emit\<close>.
\<close>

definition marshal_members :: "(string \<Rightarrow> 'x list) \<Rightarrow> string list \<Rightarrow> 'x list" where
  "marshal_members emit registry = concat (map emit registry)"

section \<open>Notions of the statements\<close>

text \<open>The requests \<open>lock\<close>, \<open>unlock\<close> and \<open>activate\<close> hand to \<open>execute\<close>.\<close>

abbreviation lock_exchange ::
  "ADTObject \<Rightarrow> connection \<times> net \<Rightarrow> (error + response) \<times> connection \<times> net" where
  "lock_exchange self cn \<equiv>
     execute (fst cn) (snd cn) ''POST'' (uri self)
       (Some (lock_params LOCK_ACCESS_MODE_MODIFY)) (Some lock_headers) None"

abbreviation unlock_exchange ::
  "ADTObject \<Rightarrow> string \<Rightarrow> connection \<times> net \<Rightarrow> (error + response) \<times> connection \<times> net" where
  "unlock_exchange self h cn \<equiv>
     execute (fst cn) (snd cn) ''POST'' (uri self)
       (Some (unlock_params h)) (Some [(''X-sap-adt-sessiontype'', ''stateful'')]) None"

abbreviation activate_exchange ::
  "ADTObject \<Rightarrow> connection \<times> net \<Rightarrow> (error + response) \<times> connection \<times> net" where
  "activate_exchange self cn \<equiv>
     execute (fst cn) (snd cn) ''POST'' ''activation'' (Some activation_params)
       (Some [(''Accept'', ''application/xml''), (''Content-Type'', ''application/xml'')])
       (Some (activation_request self (fst cn)))"

definition is_SAPCliError :: "error \<Rightarrow> bool" where
  "is_SAPCliError e = (case e of SAPCliError _ \<Rightarrow> True | _ \<Rightarrow> False)"

text \<open>A caller that runs a sequence of \<open>execute\<close> calls on one connection and goes on
  after an error.\<close>

record call =
  call_method :: string
  call_uri :: string
  call_params :: "pydict option"
  call_headers :: "pydict option"
  call_body :: "string option"

fun run_calls :: "call list \<Rightarrow> connection \<times> net \<Rightarrow> connection \<times> net" where
  "run_calls [] cn = cn"
| "run_calls (x # xs) cn =
     run_calls xs
       (snd (execute (fst cn) (snd cn) (call_method x) (call_uri x) (call_params x)
               (call_headers x) (call_body x)))"

text \<open>The registry of a class: its \<open>__ordered__\<close>, empty when it has none.\<close>

definition registry :: "py_class \<Rightarrow> string list" where
  "registry c = (case cls_ordered c of Some ms \<Rightarrow> ms | None \<Rightarrow> [])"

text \<open>The part of a text that a \<open>.*\<close> at its start can consume.\<close>

abbreviation first_line :: "string \<Rightarrow> string" where
  "first_line s \<equiv> takeWhile (\<lambda>c. c \<noteq> newline) s"

section \<open>Example objects\<close>

definition example_connection :: connection where
  "example_connection = Connection ''h'' ''001'' ''u'' ''p'' None True"

definition example_program :: ADTObject where
  "example_program =
     \<lparr>objtype = Program_OBJTYPE, obj_name = ''ZFOO'',
      metadata = \<lparr>package = None, description = None, language = None,
                  master_language = None, master_system = None, responsible = None,
                  package_reference = None\<rparr>,
      obj_lock = None\<rparr>"

definition ok_response :: "string \<Rightarrow> pydict \<Rightarrow> response" where
  "ok_response txt hs = \<lparr>resp_text = txt, status_code = 200, resp_headers = hs\<rparr>"

definition discovery_response :: response where
  "discovery_response = ok_response [] [(''x-csrf-token'', ''TOKEN'')]"

definition lock_response :: "string \<Rightarrow> response" where
  "lock_response txt =
     ok_response txt
       [(''Content-Type'',
         ''application/vnd.sap.as+xml; charset=utf-8; dataname=com.sap.adt.lock.Result'')]"

definition example_session :: session where
  "example_session =
     \<lparr>sess_id = 0, sess_auth = Some (''u'', ''p''),
      sess_headers = [(''x-csrf-token'', ''TOKEN'')]\<rparr>"

definition established_connection :: connection where
  "established_connection = example_connection\<lparr>conn_session := Some example_session\<rparr>"

definition network :: "response list \<Rightarrow> net" where
  "network rs = \<lparr>sent = [], pending = rs, sessions_created = 0\<rparr>"

definition not_found_response :: response where
  "not_found_response = \<lparr>resp_text = ''Not Found'', status_code = 404, resp_headers = []\<rparr>"

text \<open>A run of \<open>lock\<close>, \<open>unlock\<close>, \<open>lock\<close> on a new connection.\<close>

definition roundtrip_start :: "connection \<times> net" where
  "roundtrip_start =
     (example_connection,
      network [discovery_response,
               lock_response ''<sap><LOCK_HANDLE>XYZ123</LOCK_HANDLE></sap>'',
               ok_response [] [],
               lock_response ''<sap><LOCK_HANDLE>ABC</LOCK_HANDLE></sap>''])"

definition roundtrip_locked :: "(error + unit) \<times> ADTObject \<times> connection \<times> net" where
  "roundtrip_locked = lock example_program roundtrip_start"

definition roundtrip_unlocked :: "(error + unit) \<times> ADTObject \<times> connection \<times> net" where
  "roundtrip_unlocked = unlock (fst (snd roundtrip_locked)) (snd (snd roundtrip_locked))"

definition roundtrip_relocked :: "(error + unit) \<times> ADTObject \<times> connection \<times> net" where
  "roundtrip_relocked = lock (fst (snd roundtrip_unlocked)) (snd (snd roundtrip_unlocked))"

text \<open>A lock response of another content type, and activation responses.\<close>

definition plain_response :: "string \<Rightarrow> response" where
  "plain_response txt = ok_response txt [(''Content-Type'', ''text/plain'')]"

definition refused_start :: "connection \<times> net" where
  "refused_start = (established_connection, network [plain_response ''denied''])"

definition activation_start :: "string \<Rightarrow> connection \<times> net" where
  "activation_start txt = (established_connection, network [ok_response txt []])"

definition session_start :: net where
  "session_start = network [discovery_response, ok_response ''REPORT ZFOO.'' []]"

definition example_calls :: "call list" where
  "example_calls =
     [\<lparr>call_method = ''GET'', call_uri = ''programs/programs/zfoo/source/main'',
       call_params = None, call_headers = Some [(''Accept'', ''text/plain'')],
       call_body = None\<rparr>,
      \<lparr>call_method = ''POST'', call_uri = ''activation'',
       call_params = Some activation_params, call_headers = None, call_body = None\<rparr>]"

text \<open>A class with two bases that were both built by the metaclass.\<close>

definition mixin_A :: py_class where
  "mixin_A = define_class ''A'' [] False [(''alpha'', XmlAttribute ''x:alpha'')]"

definition mixin_B :: py_class where
  "mixin_B = define_class ''B'' [] False [(''beta'', XmlAttribute ''x:beta'')]"

definition class_C :: py_class where
  "class_C =
     define_class ''C'' [mixin_A, mixin_B] False [(''gamma'', XmlAttribute ''x:gamma'')]"



text \<open>Two bases that declare the same name, and a class that inherits from both.\<close>

definition named_A :: py_class where
  "named_A = define_class ''A'' [] False [(''name'', XmlAttribute ''a:name'')]"

definition named_B :: py_class where
  "named_B =
     define_class ''B'' [] False
       [(''name'', XmlAttribute ''b:name''), (''other'', XmlAttribute ''b:other'')]"

definition class_Both :: py_class where
  "class_Both = define_class ''Both'' [named_A, named_B] False [(''own'', Other)]"

text \<open>
  The class bodies of \<open>ADTObject\<close> and \<open>Program\<close>, name by name in the order of the
  source (\<open>description\<close> is bound twice: by the getter and by its setter). No method
  of \<open>ADTObject\<close> names \<open>super\<close> or \<open>__class__\<close> (\<open>self.__class__\<close> is an attribute);
  the constructor of \<open>Program\<close> calls \<open>super(Program, self)\<close>.
\<close>

definition ADTObject_body :: "(string \<times> member) list" where
  "ADTObject_body =
     [(''__doc__'', Other), (''__init__'', Other), (''coredata'', Other),
      (''connection'', Other), (''objtype'', Other), (''package'', Other),
      (''description'', XmlAttribute ''adtcore:description''),
      (''description'', XmlAttribute ''adtcore:description''),
      (''language'', XmlAttribute ''adtcore:language''),
      (''name'', XmlAttribute ''adtcore:name''),
      (''master_language'', XmlAttribute ''adtcore:masterLanguage''),
      (''master_system'', XmlAttribute ''adtcore:masterSystem''),
      (''responsible'', XmlAttribute ''adtcore:responsible''),
      (''uri'', Other), (''text'', Other),
      (''reference'', XmlElement ''adtcore:packageRef''),
      (''create'', Other), (''lock'', Other), (''unlock'', Other), (''activate'', Other)]"





text \<open>A lock result whose XML declaration stands on a line of its own.\<close>

definition multiline_lock_body :: string where
  "multiline_lock_body =
     ''<?xml version=\"1.0\" encoding=\"UTF-8\"?>'' @ [newline]
     @ ''<asx:abap><LOCK_HANDLE>XYZ123</LOCK_HANDLE></asx:abap>''"

definition multiline_start :: "connection \<times> net" where
  "multiline_start = (established_connection, network [lock_response multiline_lock_body])"

section \<open>Properties\<close>

subsection \<open>One exchange\<close>

lemma send_Cons:
  "pending n = r # rs \<Longrightarrow> send req n = (Inr r, n\<lparr>sent := sent n @ [req], pending := rs\<rparr>)"
  by (simp add: send_def)

lemma execute_established:
  "conn_session c = Some s \<Longrightarrow>
   execute c n m u ps hs b =
     (fst (execute_with_session s m (build_adt_url c u) ps hs b n), c,
      snd (execute_with_session s m (build_adt_url c u) ps hs b n))"
  by (simp add: execute_def get_session_def split: prod.split)

lemma upper_get: "upper ''get'' = ''GET''"
  by (simp add: upper_def upper_char_def ascii_lowercase_def ascii_uppercase_def)

text \<open>
  Claim C8. Whenever the server answers a request sent by
  \<open>_execute_with_session\<close> with the response \<open>r\<close>: a status of 400 or more raises
  \<open>HTTPRequestError\<close> carrying the prepared request and \<open>r\<close>; a status below 400
  returns \<open>r\<close> itself; in both cases exactly one request has been sent and exactly one
  response consumed, so nothing is retried. On a connection whose session is
  established, \<open>execute\<close> is this single exchange and leaves the connection as it was.
\<close>

theorem http_status_decides_exchange:
  assumes "pending n = r # rs"
  shows "(400 \<le> status_code r \<longrightarrow>
            fst (execute_with_session s m url ps hs b n) =
              Inl (HTTPRequestError
                     (prepare_request s
                        \<lparr>req_method = upper m, req_url = url, req_params = ps,
                         req_data = b, req_headers = hs\<rparr>) r))
       \<and> (status_code r < 400 \<longrightarrow> fst (execute_with_session s m url ps hs b n) = Inr r)
       \<and> snd (execute_with_session s m url ps hs b n) =
           n\<lparr>sent := sent n @
                  [prepare_request s
                     \<lparr>req_method = upper m, req_url = url, req_params = ps,
                      req_data = b, req_headers = hs\<rparr>],
              pending := rs\<rparr>
       \<and> (conn_session c = Some s \<longrightarrow>
            execute c n m u ps hs b =
              (fst (execute_with_session s m (build_adt_url c u) ps hs b n), c,
               snd (execute_with_session s m (build_adt_url c u) ps hs b n)))"
  using assms by (simp add: execute_with_session_def send_Cons execute_established Let_def)

theorem http_status_decides_exchange_witness:
  "pending (network [not_found_response, discovery_response]) =
     not_found_response # [discovery_response]
   \<and> 400 \<le> status_code not_found_response
   \<and> fst (execute_with_session example_session ''get'' ''u'' None None None
             (network [not_found_response, discovery_response])) =
       Inl (HTTPRequestError
              \<lparr>prep_method = ''GET'', prep_url = ''u'', prep_params = None, prep_body = None,
               prep_headers = [(''x-csrf-token'', ''TOKEN'')], prep_auth = Some (''u'', ''p'')\<rparr>
              not_found_response)
   \<and> pending (snd (execute_with_session example_session ''get'' ''u'' None None None
             (network [not_found_response, discovery_response]))) = [discovery_response]
   \<and> pending (network [discovery_response]) = discovery_response # []
   \<and> status_code discovery_response < 400
   \<and> conn_session established_connection = Some example_session
   \<and> fst (execute established_connection (network [discovery_response])
             ''get'' ''u'' None None None) = Inr discovery_response"
proof -
  have h: "pending (network [not_found_response, discovery_response]) =
             not_found_response # [discovery_response]"
    by (simp add: network_def)
  have h': "pending (network [discovery_response]) = discovery_response # []"
    by (simp add: network_def)
  have big: "400 \<le> status_code not_found_response"
    by (simp add: not_found_response_def)
  have small: "status_code discovery_response < 400"
    by (simp add: discovery_response_def ok_response_def)
  have est: "conn_session established_connection = Some example_session"
    by (simp add: established_connection_def)
  show ?thesis
    using http_status_decides_exchange
            [OF h, of example_session "''get''" "''u''" None None None]
          http_status_decides_exchange
            [OF h', of example_session "''get''"
               "build_adt_url established_connection ''u''" None None None
               established_connection "''u''"]
          big small h h' est upper_get
    by (simp add: prepare_request_def example_session_def merge_headers_def)
qed

subsection \<open>The object type table\<close>

text \<open>
  Claim C6, as amended. \<open>get_uri_for_type('text/plain')\<close> on the Program object type
  returns \<open>/source/main\<close>; on the Package object type, which maps no MIME type, it
  raises a \<open>SAPCliError\<close> whose message says that the object does not support the
  plain text format.
\<close>

theorem get_uri_for_type_text_plain:
  "get_uri_for_type Program_OBJTYPE ''text/plain'' = Inr ''/source/main''
   \<and> get_uri_for_type Package_OBJTYPE ''text/plain'' =
       Inl (SAPCliError ''Object {type} does not support plain 'text' format'')"
  by (simp add: get_uri_for_type_def Program_OBJTYPE_def Package_OBJTYPE_def)

text \<open>The message is not the one the claim C6 quotes.\<close>

theorem get_uri_for_type_message_counterexample:
  "get_uri_for_type Package_OBJTYPE ''text/plain'' \<noteq>
     Inl (SAPCliError ''unsupported text representation'')"
  by (simp add: get_uri_for_type_def Package_OBJTYPE_def)

subsection \<open>Lock state errors\<close>

lemma uri_example_program: "uri example_program = ''programs/programs/zfoo''"
  by (simp add: uri_def example_program_def Program_OBJTYPE_def lower_def lower_char_def
      ascii_lowercase_def ascii_uppercase_def)

lemma uri_obj_lock_update: "uri (self\<lparr>obj_lock := l\<rparr>) = uri self"
  by (simp add: uri_def)

text \<open>
  Claim C2. \<open>lock()\<close> on an object whose lock token is set, and \<open>unlock()\<close> on an
  object whose lock token is absent, raise a \<open>SAPCliError\<close> and return the object, the
  connection and the network as they were: no request is sent, no session is
  created and the token is unchanged.
\<close>

theorem lock_state_errors_are_local:
  "(obj_lock self = Some h \<longrightarrow>
      lock self cn =
        (Inl (SAPCliError (''Object '' @ uri self @ '': already locked'')), self, cn))
   \<and> (obj_lock self = None \<longrightarrow>
      unlock self cn =
        (Inl (SAPCliError (''Object '' @ uri self @ '': not locked'')), self, cn))"
  by (simp add: lock_def unlock_def already_locked_def not_locked_def)

theorem lock_state_errors_are_local_witness:
  "obj_lock (example_program\<lparr>obj_lock := Some ''H''\<rparr>) = Some ''H''
   \<and> lock (example_program\<lparr>obj_lock := Some ''H''\<rparr>)
        (example_connection, network [discovery_response]) =
       (Inl (SAPCliError ''Object programs/programs/zfoo: already locked''),
        example_program\<lparr>obj_lock := Some ''H''\<rparr>, example_connection,
        network [discovery_response])
   \<and> obj_lock example_program = None
   \<and> unlock example_program (example_connection, network [discovery_response]) =
       (Inl (SAPCliError ''Object programs/programs/zfoo: not locked''),
        example_program, example_connection, network [discovery_response])"
proof -
  have l: "obj_lock example_program = None"
    by (simp add: example_program_def)
  show ?thesis
    using lock_state_errors_are_local
            [of "example_program\<lparr>obj_lock := Some ''H''\<rparr>" "''H''"
               "(example_connection, network [discovery_response])"]
          lock_state_errors_are_local
            [of example_program h "(example_connection, network [discovery_response])"]
          uri_example_program l
    by (simp add: uri_obj_lock_update)
qed

subsection \<open>The errors of an exchange\<close>

lemma execute_with_session_error:
  "execute_with_session s m u ps hs b n = (Inl e, n') \<Longrightarrow> \<not> is_SAPCliError e"
  by (auto simp: execute_with_session_def send_def Let_def is_SAPCliError_def
           split: list.splits if_splits)

lemma get_session_error:
  "get_session c n = (Inl e, c', n') \<Longrightarrow> \<not> is_SAPCliError e"
  by (auto simp: get_session_def Let_def is_SAPCliError_def
           split: option.splits prod.splits sum.splits
           dest: execute_with_session_error)

lemma execute_error:
  "execute c n m u ps hs b = (Inl e, cn') \<Longrightarrow> \<not> is_SAPCliError e"
  by (auto simp: execute_def split: prod.splits sum.splits
           dest: get_session_error execute_with_session_error)

lemma triple_collapse: "fst p = a \<Longrightarrow> p = (a, fst (snd p), snd (snd p))"
  by (cases p) auto

lemma pair_collapse: "fst p = a \<Longrightarrow> p = (a, snd p)"
  by (cases p) auto

subsection \<open>Lock responses without the lock result\<close>

text \<open>
  Claim C4. When the response to the lock request carries a \<open>Content-Type\<close> header
  that does not contain \<open>dataname=com.sap.adt.lock.Result\<close>, \<open>lock()\<close> raises a
  \<open>SAPCliError\<close> whose message contains the response body, and the lock token of the
  object stays absent.
\<close>

theorem lock_without_marker:
  assumes "obj_lock self = None"
      and "lock_exchange self cn = (Inr resp, cn')"
      and "map_of (resp_headers resp) ''Content-Type'' = Some ct"
      and "\<not> sublist lock_result_marker ct"
  shows "lock self cn =
           (Inl (SAPCliError
                   (''Object '' @ uri self @ '': lock response does not have lock result''
                    @ [newline] @ resp_text resp)), self, cn')
         \<and> sublist (resp_text resp)
              (''Object '' @ uri self @ '': lock response does not have lock result''
               @ [newline] @ resp_text resp)
         \<and> obj_lock (fst (snd (lock self cn))) = None"
proof -
  have "sublist (resp_text resp)
          ((''Object '' @ uri self @ '': lock response does not have lock result''
               @ [newline]) @ resp_text resp @ [])"
    by (rule sublist_appendI)
  then show ?thesis
    using assms by (simp add: lock_def)
qed

lemma refused_exchange:
  "fst (lock_exchange example_program refused_start) = Inr (plain_response ''denied'')"
  by code_simp

lemma refused_content_type:
  "map_of (resp_headers (plain_response ''denied'')) ''Content-Type'' = Some ''text/plain''
   \<and> \<not> sublist lock_result_marker ''text/plain''"
  by code_simp

theorem lock_without_marker_witness:
  "obj_lock example_program = None
   \<and> lock_exchange example_program refused_start =
       (Inr (plain_response ''denied''), snd (lock_exchange example_program refused_start))
   \<and> map_of (resp_headers (plain_response ''denied'')) ''Content-Type'' = Some ''text/plain''
   \<and> \<not> sublist lock_result_marker ''text/plain''
   \<and> lock example_program refused_start =
       (Inl (SAPCliError
               (''Object programs/programs/zfoo: lock response does not have lock result''
                @ [newline] @ ''denied'')),
        example_program, snd (lock_exchange example_program refused_start))"
proof -
  have l: "obj_lock example_program = None"
    by (simp add: example_program_def)
  have x: "lock_exchange example_program refused_start =
             (Inr (plain_response ''denied''), snd (lock_exchange example_program refused_start))"
    using refused_exchange by (rule pair_collapse)
  have t: "resp_text (plain_response ''denied'') = ''denied''"
    by (simp add: plain_response_def ok_response_def)
  show ?thesis
    using lock_without_marker [OF l x conjunct1 [OF refused_content_type]
            conjunct2 [OF refused_content_type]]
          l x refused_content_type uri_example_program t
    by simp
qed

subsection \<open>Activation\<close>

text \<open>
  Claim C5. When the activation request returns a response: an empty body makes
  \<open>activate()\<close> return without error, a body that is not empty makes it raise a
  \<open>SAPCliError\<close> whose message contains the body; the object is returned as it was.
\<close>

theorem activate_body_decides:
  assumes "activate_exchange self cn = (Inr resp, cn')"
  shows "(resp_text resp = [] \<longrightarrow> activate self cn = (Inr (), self, cn'))
       \<and> (resp_text resp \<noteq> [] \<longrightarrow>
            activate self cn =
              (Inl (SAPCliError
                      (''Could not activate the object '' @ obj_name self @ '': ''
                       @ resp_text resp)), self, cn')
            \<and> sublist (resp_text resp)
                 (''Could not activate the object '' @ obj_name self @ '': ''
                  @ resp_text resp))
       \<and> fst (snd (activate self cn)) = self"
proof -
  have "sublist (resp_text resp)
          ((''Could not activate the object '' @ obj_name self @ '': '')
           @ resp_text resp @ [])"
    by (rule sublist_appendI)
  then show ?thesis
    using assms by (simp add: activate_def)
qed

lemma activation_exchange_empty:
  "fst (activate_exchange example_program (activation_start [])) = Inr (ok_response [] [])"
  by code_simp

lemma activation_exchange_failed:
  "fst (activate_exchange example_program (activation_start ''syntax error'')) =
     Inr (ok_response ''syntax error'' [])"
  by code_simp

theorem activate_body_decides_witness:
  "activate_exchange example_program (activation_start []) =
     (Inr (ok_response [] []), snd (activate_exchange example_program (activation_start [])))
   \<and> resp_text (ok_response [] []) = []
   \<and> activate example_program (activation_start []) =
       (Inr (), example_program, snd (activate_exchange example_program (activation_start [])))
   \<and> activate_exchange example_program (activation_start ''syntax error'') =
       (Inr (ok_response ''syntax error'' []),
        snd (activate_exchange example_program (activation_start ''syntax error'')))
   \<and> resp_text (ok_response ''syntax error'' []) \<noteq> []
   \<and> activate example_program (activation_start ''syntax error'') =
       (Inl (SAPCliError ''Could not activate the object ZFOO: syntax error''),
        example_program,
        snd (activate_exchange example_program (activation_start ''syntax error'')))"
proof -
  have x: "activate_exchange example_program (activation_start []) =
     (Inr (ok_response [] []), snd (activate_exchange example_program (activation_start [])))"
    using activation_exchange_empty by (rule pair_collapse)
  have y: "activate_exchange example_program (activation_start ''syntax error'') =
       (Inr (ok_response ''syntax error'' []),
        snd (activate_exchange example_program (activation_start ''syntax error'')))"
    using activation_exchange_failed by (rule pair_collapse)
  have n: "obj_name example_program = ''ZFOO''"
    by (simp add: example_program_def)
  have t: "resp_text (ok_response [] []) = []"
          "resp_text (ok_response ''syntax error'' []) = ''syntax error''"
    by (simp_all add: ok_response_def)
  show ?thesis
    using activate_body_decides [OF x] activate_body_decides [OF y] x y n t
    by simp
qed

subsection \<open>Lock, unlock, lock again\<close>

lemma lock_success:
  "lock self cn = (Inr (), self1, cn1) \<Longrightarrow>
   obj_lock self = None \<and> (\<exists>h. self1 = self\<lparr>obj_lock := Some h\<rparr>)"
  by (auto simp: lock_def split: option.splits prod.splits sum.splits if_splits)

lemma unlock_success:
  "unlock self cn = (Inr (), self2, cn2) \<Longrightarrow> self2 = self\<lparr>obj_lock := None\<rparr>"
  by (auto simp: unlock_def split: option.splits prod.splits sum.splits)

lemma lock_unlocked_not_already_locked:
  assumes "obj_lock self = None"
  shows "fst (lock self cn) \<noteq> Inl (already_locked self)"
proof (cases "lock_exchange self cn")
  case (fields res c' n')
  show ?thesis
  proof (cases res)
    case (Inl e)
    with fields have "\<not> is_SAPCliError e"
      using execute_error by blast
    with Inl fields assms show ?thesis
      by (auto simp: lock_def already_locked_def is_SAPCliError_def)
  next
    case (Inr resp)
    with fields assms show ?thesis
      by (auto simp: lock_def already_locked_def split: option.splits)
  qed
qed

text \<open>
  Claim C1. After a successful \<open>lock()\<close> and a successful \<open>unlock()\<close> the lock token
  is absent again (the object is the one the run started from). A further \<open>lock()\<close>
  does not raise the already-locked error, whatever the server answers, and it
  succeeds, storing the new handle, when the server answers with a lock result.
\<close>

theorem lock_unlock_roundtrip:
  assumes "lock self cn = (Inr (), self1, cn1)"
      and "unlock self1 cn1 = (Inr (), self2, cn2)"
  shows "obj_lock self2 = None
       \<and> self2 = self
       \<and> fst (lock self2 cn2) \<noteq>
           Inl (SAPCliError (''Object '' @ uri self2 @ '': already locked''))
       \<and> (lock_exchange self2 cn2 = (Inr resp, cn3)
            \<and> map_of (resp_headers resp) ''Content-Type'' = Some ct
            \<and> sublist lock_result_marker ct
            \<and> match_lock_handle (resp_text resp) = Some h
          \<longrightarrow> lock self2 cn2 = (Inr (), self2\<lparr>obj_lock := Some h\<rparr>, cn3))"
proof -
  from assms(1) obtain h0
    where a: "obj_lock self = None" and b: "self1 = self\<lparr>obj_lock := Some h0\<rparr>"
    using lock_success by blast
  from assms(2) have c: "self2 = self1\<lparr>obj_lock := None\<rparr>"
    by (rule unlock_success)
  from a b c have eq: "self2 = self" by simp
  have "fst (lock self cn2) \<noteq> Inl (already_locked self)"
    using a by (rule lock_unlocked_not_already_locked)
  then show ?thesis
    using a eq by (simp add: lock_def already_locked_def)
qed

lemma roundtrip_locked_ok: "fst roundtrip_locked = Inr ()"
  by code_simp

lemma roundtrip_unlocked_ok: "fst roundtrip_unlocked = Inr ()"
  by code_simp

lemma roundtrip_relock_exchange:
  "fst (lock_exchange (fst (snd roundtrip_unlocked)) (snd (snd roundtrip_unlocked))) =
     Inr (lock_response ''<sap><LOCK_HANDLE>ABC</LOCK_HANDLE></sap>'')"
  by code_simp

lemma roundtrip_relock_response:
  "map_of (resp_headers (lock_response ''<sap><LOCK_HANDLE>ABC</LOCK_HANDLE></sap>''))
     ''Content-Type'' =
     Some ''application/vnd.sap.as+xml; charset=utf-8; dataname=com.sap.adt.lock.Result''
   \<and> sublist lock_result_marker
       ''application/vnd.sap.as+xml; charset=utf-8; dataname=com.sap.adt.lock.Result''
   \<and> match_lock_handle
       (resp_text (lock_response ''<sap><LOCK_HANDLE>ABC</LOCK_HANDLE></sap>'')) = Some ''ABC''"
  by code_simp

theorem lock_unlock_roundtrip_witness:
  "lock example_program roundtrip_start =
     (Inr (), fst (snd roundtrip_locked), snd (snd roundtrip_locked))
   \<and> unlock (fst (snd roundtrip_locked)) (snd (snd roundtrip_locked)) =
       (Inr (), fst (snd roundtrip_unlocked), snd (snd roundtrip_unlocked))
   \<and> obj_lock (fst (snd roundtrip_unlocked)) = None
   \<and> fst (snd roundtrip_unlocked) = example_program
   \<and> lock (fst (snd roundtrip_unlocked)) (snd (snd roundtrip_unlocked)) =
       (Inr (), (fst (snd roundtrip_unlocked))\<lparr>obj_lock := Some ''ABC''\<rparr>,
        snd (lock_exchange (fst (snd roundtrip_unlocked)) (snd (snd roundtrip_unlocked))))"
proof -
  have l: "lock example_program roundtrip_start =
             (Inr (), fst (snd roundtrip_locked), snd (snd roundtrip_locked))"
    using roundtrip_locked_ok [THEN triple_collapse] by (simp add: roundtrip_locked_def)
  have u: "unlock (fst (snd roundtrip_locked)) (snd (snd roundtrip_locked)) =
             (Inr (), fst (snd roundtrip_unlocked), snd (snd roundtrip_unlocked))"
    using roundtrip_unlocked_ok [THEN triple_collapse] by (simp add: roundtrip_unlocked_def)
  have x: "lock_exchange (fst (snd roundtrip_unlocked)) (snd (snd roundtrip_unlocked)) =
             (Inr (lock_response ''<sap><LOCK_HANDLE>ABC</LOCK_HANDLE></sap>''),
              snd (lock_exchange (fst (snd roundtrip_unlocked)) (snd (snd roundtrip_unlocked))))"
    using roundtrip_relock_exchange by (rule pair_collapse)
  note t = lock_unlock_roundtrip [OF l u,
            of "lock_response ''<sap><LOCK_HANDLE>ABC</LOCK_HANDLE></sap>''"
               "snd (lock_exchange (fst (snd roundtrip_unlocked)) (snd (snd roundtrip_unlocked)))"
               "''application/vnd.sap.as+xml; charset=utf-8; dataname=com.sap.adt.lock.Result''"
               "''ABC''"]
  from t have c1: "obj_lock (fst (snd roundtrip_unlocked)) = None"
    by (rule conjunct1)
  from t have c2: "fst (snd roundtrip_unlocked) = example_program"
    by blast
  from t x roundtrip_relock_response
  have c3: "lock (fst (snd roundtrip_unlocked)) (snd (snd roundtrip_unlocked)) =
       (Inr (), (fst (snd roundtrip_unlocked))\<lparr>obj_lock := Some ''ABC''\<rparr>,
        snd (lock_exchange (fst (snd roundtrip_unlocked)) (snd (snd roundtrip_unlocked))))"
    by blast
  from l u c1 c2 c3 show ?thesis
    by (intro conjI)
qed

subsection \<open>The session of a connection\<close>

lemma execute_with_session_net:
  "sent (snd (execute_with_session s m url ps hs b n)) =
     sent n @ [prepare_request s
                 \<lparr>req_method = upper m, req_url = url, req_params = ps,
                  req_data = b, req_headers = hs\<rparr>]
   \<and> sessions_created (snd (execute_with_session s m url ps hs b n)) = sessions_created n"
  by (simp add: execute_with_session_def send_def Let_def split: list.split)

lemma execute_reuses_session:
  assumes "conn_session c = Some s"
  shows "fst (snd (execute c n m u ps hs b)) = c"
    and "sessions_created (snd (snd (execute c n m u ps hs b))) = sessions_created n"
    and "sent (snd (snd (execute c n m u ps hs b))) =
           sent n @ [prepare_request s
                       \<lparr>req_method = upper m, req_url = build_adt_url c u, req_params = ps,
                        req_data = b, req_headers = hs\<rparr>]"
  using assms by (simp_all add: execute_established execute_with_session_net)

lemma upper_GET: "upper ''GET'' = ''GET''"
  by (simp add: upper_def upper_char_def ascii_lowercase_def ascii_uppercase_def)

lemma build_adt_url_session: "build_adt_url (c\<lparr>conn_session := x\<rparr>) u = build_adt_url c u"
  by (simp add: build_adt_url_def)

lemma get_session_creates:
  assumes "conn_session c = None"
  shows "\<exists>s. conn_session (fst (snd (get_session c n))) = Some s \<and> sess_id s = sessions_created n"
    and "sessions_created (snd (snd (get_session c n))) = Suc (sessions_created n)"
    and "sent (snd (snd (get_session c n))) =
           sent n @ [\<lparr>prep_method = ''GET'', prep_url = build_adt_url c ''core/discovery'',
                      prep_params = None, prep_body = None,
                      prep_headers = [(''x-csrf-token'', ''Fetch'')],
                      prep_auth = Some (auth c)\<rparr>]"
proof -
  let ?s0 = "\<lparr>sess_id = sessions_created n, sess_auth = Some (auth c), sess_headers = []\<rparr>"
  let ?n0 = "n\<lparr>sessions_created := Suc (sessions_created n)\<rparr>"
  let ?x = "execute_with_session ?s0 ''GET'' (build_adt_url c ''core/discovery'') None
              (Some [(''x-csrf-token'', ''Fetch'')]) None ?n0"
  have net: "snd (snd (get_session c n)) = snd ?x"
    using assms
    by (simp add: get_session_def Let_def build_adt_url_session
             split: prod.split sum.split option.split)
  show "\<exists>s. conn_session (fst (snd (get_session c n))) = Some s \<and> sess_id s = sessions_created n"
    using assms
    by (simp add: get_session_def Let_def split: prod.split sum.split option.split)
  show "sessions_created (snd (snd (get_session c n))) = Suc (sessions_created n)"
    by (simp add: net execute_with_session_net)
  show "sent (snd (snd (get_session c n))) =
           sent n @ [\<lparr>prep_method = ''GET'', prep_url = build_adt_url c ''core/discovery'',
                      prep_params = None, prep_body = None,
                      prep_headers = [(''x-csrf-token'', ''Fetch'')],
                      prep_auth = Some (auth c)\<rparr>]"
    by (simp add: net execute_with_session_net upper_GET prepare_request_def merge_headers_def
          dict_update_def)
qed

lemma get_session_token:
  assumes "conn_session c = None" and "pending n = r # rs" and "status_code r < 400"
      and "map_of (resp_headers r) ''x-csrf-token'' = Some tok"
  shows "fst (get_session c n) =
           Inr \<lparr>sess_id = sessions_created n, sess_auth = Some (auth c),
                sess_headers = [(''x-csrf-token'', tok)]\<rparr>
         \<and> conn_session (fst (snd (get_session c n))) =
             Some \<lparr>sess_id = sessions_created n, sess_auth = Some (auth c),
                   sess_headers = [(''x-csrf-token'', tok)]\<rparr>"
  using assms
  by (simp add: get_session_def Let_def execute_with_session_def send_def)

text \<open>When the discovery request is refused, the session stays stored without a
  token.\<close>

lemma get_session_refused:
  assumes "conn_session c = None" and "pending n = r # rs" and "400 \<le> status_code r"
  shows "conn_session (fst (snd (get_session c n))) =
           Some \<lparr>sess_id = sessions_created n, sess_auth = Some (auth c), sess_headers = []\<rparr>"
  using assms
  by (simp add: get_session_def Let_def execute_with_session_def send_def)

lemma execute_connection:
  "fst (snd (execute c n m u ps hs b)) = fst (snd (get_session c n))"
  by (simp add: execute_def split: prod.split sum.split)

lemma execute_net:
  "snd (snd (execute c n m u ps hs b)) =
     (case fst (get_session c n) of
        Inl e \<Rightarrow> snd (snd (get_session c n))
      | Inr s \<Rightarrow> snd (execute_with_session s m (build_adt_url (fst (snd (get_session c n))) u)
                        ps hs b (snd (snd (get_session c n)))))"
  by (simp add: execute_def split: prod.split sum.split)

lemma execute_creates_session:
  assumes "conn_session c = None"
  shows "\<exists>s. conn_session (fst (snd (execute c n m u ps hs b))) = Some s
             \<and> sess_id s = sessions_created n"
    and "sessions_created (snd (snd (execute c n m u ps hs b))) = Suc (sessions_created n)"
    and "\<exists>rest. sent (snd (snd (execute c n m u ps hs b))) =
           sent n @ \<lparr>prep_method = ''GET'', prep_url = build_adt_url c ''core/discovery'',
                      prep_params = None, prep_body = None,
                      prep_headers = [(''x-csrf-token'', ''Fetch'')],
                      prep_auth = Some (auth c)\<rparr> # rest"
proof -
  show "\<exists>s. conn_session (fst (snd (execute c n m u ps hs b))) = Some s
             \<and> sess_id s = sessions_created n"
    using get_session_creates(1) [OF assms] by (simp add: execute_connection)
  show "sessions_created (snd (snd (execute c n m u ps hs b))) = Suc (sessions_created n)"
    using get_session_creates(2) [OF assms]
    by (simp add: execute_net execute_with_session_net split: sum.split)
  show "\<exists>rest. sent (snd (snd (execute c n m u ps hs b))) =
           sent n @ \<lparr>prep_method = ''GET'', prep_url = build_adt_url c ''core/discovery'',
                      prep_params = None, prep_body = None,
                      prep_headers = [(''x-csrf-token'', ''Fetch'')],
                      prep_auth = Some (auth c)\<rparr> # rest"
    using get_session_creates(3) [OF assms]
    by (simp add: execute_net execute_with_session_net split: sum.split)
qed

lemma run_calls_established:
  "conn_session (fst cn) = Some s \<Longrightarrow>
   fst (run_calls calls cn) = fst cn
   \<and> sessions_created (snd (run_calls calls cn)) = sessions_created (snd cn)"
proof (induction calls arbitrary: cn)
  case Nil
  then show ?case by simp
next
  case (Cons x xs)
  let ?cn' = "snd (execute (fst cn) (snd cn) (call_method x) (call_uri x) (call_params x)
                     (call_headers x) (call_body x))"
  have c: "fst ?cn' = fst cn" and k: "sessions_created (snd ?cn') = sessions_created (snd cn)"
    using execute_reuses_session(1,2) [OF Cons.prems] by simp_all
  from Cons.prems c have "conn_session (fst ?cn') = Some s" by simp
  from Cons.IH [OF this] c k show ?case by simp
qed

lemma run_calls_one_session:
  assumes "conn_session c = None"
  shows "sessions_created (snd (run_calls calls (c, n))) \<le> Suc (sessions_created n)"
proof (cases calls)
  case Nil
  then show ?thesis by simp
next
  case (Cons x xs)
  let ?cn' = "snd (execute c n (call_method x) (call_uri x) (call_params x)
                     (call_headers x) (call_body x))"
  from execute_creates_session(1) [OF assms]
  obtain s where s: "conn_session (fst ?cn') = Some s" by blast
  have "sessions_created (snd ?cn') = Suc (sessions_created n)"
    using execute_creates_session(2) [OF assms] by simp
  with run_calls_established [OF s, of xs] Cons show ?thesis by simp
qed

text \<open>
  Claim C9. A connection that has no session creates one in its first \<open>execute()\<close>:
  one \<open>requests.Session()\<close> is constructed and stored, and the first request sent is
  the \<open>GET\<close> of \<open>core/discovery\<close> with the header \<open>x-csrf-token: Fetch\<close>; when that
  request is answered with a status below 400 and an \<open>x-csrf-token\<close> header, the
  stored session carries the token as its session-wide header. A connection that has
  a session keeps it in every later \<open>execute()\<close>, constructs no other and sends the
  caller's request alone, with the session's headers. Over any sequence of calls on a
  new connection at most one session is constructed.
\<close>

theorem one_session_per_connection:
  fixes c :: connection and n :: net and m u ps hs b
  defines "c' \<equiv> fst (snd (execute c n m u ps hs b))"
      and "n' \<equiv> snd (snd (execute c n m u ps hs b))"
  shows "(conn_session c = None \<longrightarrow>
            (\<exists>s. conn_session c' = Some s \<and> sess_id s = sessions_created n)
            \<and> sessions_created n' = Suc (sessions_created n)
            \<and> (\<exists>rest. sent n' =
                  sent n @ \<lparr>prep_method = ''GET'',
                             prep_url = build_adt_url c ''core/discovery'',
                             prep_params = None, prep_body = None,
                             prep_headers = [(''x-csrf-token'', ''Fetch'')],
                             prep_auth = Some (auth c)\<rparr> # rest))
       \<and> (conn_session c = None \<and> pending n = r # rs \<and> status_code r < 400
            \<and> map_of (resp_headers r) ''x-csrf-token'' = Some tok \<longrightarrow>
            conn_session c' =
              Some \<lparr>sess_id = sessions_created n, sess_auth = Some (auth c),
                    sess_headers = [(''x-csrf-token'', tok)]\<rparr>)
       \<and> (conn_session c = Some s \<longrightarrow>
            c' = c \<and> sessions_created n' = sessions_created n
            \<and> sent n' =
                sent n @ [prepare_request s
                            \<lparr>req_method = upper m, req_url = build_adt_url c u,
                             req_params = ps, req_data = b, req_headers = hs\<rparr>])
       \<and> (conn_session c = None \<longrightarrow>
            sessions_created (snd (run_calls calls (c, n))) \<le> Suc (sessions_created n))"
  unfolding c'_def n'_def
  using execute_creates_session [of c n m u ps hs b]
        get_session_token [of c n r rs tok]
        execute_reuses_session [of c s n m u ps hs b]
        run_calls_one_session [of c calls n]
  by (simp add: execute_connection)

theorem one_session_per_connection_witness:
  "conn_session example_connection = None
   \<and> pending session_start = discovery_response # [ok_response ''REPORT ZFOO.'' []]
   \<and> status_code discovery_response < 400
   \<and> map_of (resp_headers discovery_response) ''x-csrf-token'' = Some ''TOKEN''
   \<and> conn_session (fst (snd (execute example_connection session_start
          ''GET'' ''programs'' None None None))) = Some example_session
   \<and> sessions_created (snd (snd (execute example_connection session_start
          ''GET'' ''programs'' None None None))) = Suc 0
   \<and> conn_session established_connection = Some example_session
   \<and> fst (snd (execute established_connection session_start
          ''GET'' ''programs'' None None None)) = established_connection
   \<and> sessions_created (snd (snd (execute established_connection session_start
          ''GET'' ''programs'' None None None))) = 0
   \<and> sessions_created (snd (run_calls example_calls (example_connection, session_start)))
       \<le> Suc 0"
proof -
  have a: "conn_session example_connection = None"
    by (simp add: example_connection_def Connection_def Let_def)
  have b: "pending session_start = discovery_response # [ok_response ''REPORT ZFOO.'' []]"
    by (simp add: session_start_def network_def)
  have c: "status_code discovery_response < 400"
    by (simp add: discovery_response_def ok_response_def)
  have d: "map_of (resp_headers discovery_response) ''x-csrf-token'' = Some ''TOKEN''"
    by (simp add: discovery_response_def ok_response_def)
  have e: "conn_session established_connection = Some example_session"
    by (simp add: established_connection_def)
  have k: "sessions_created session_start = 0"
    by (simp add: session_start_def network_def)
  have s: "\<lparr>sess_id = sessions_created session_start, sess_auth = Some (auth example_connection),
            sess_headers = [(''x-csrf-token'', ''TOKEN'')]\<rparr> = example_session"
    by (simp add: k example_session_def example_connection_def Connection_def Let_def)
  note first = one_session_per_connection
                 [of example_connection session_start "''GET''" "''programs''" None None None
                     discovery_response "[ok_response ''REPORT ZFOO.'' []]" "''TOKEN''"
                     example_session example_calls]
  note later = one_session_per_connection
                 [of established_connection session_start "''GET''" "''programs''" None None None
                     discovery_response "[ok_response ''REPORT ZFOO.'' []]" "''TOKEN''"
                     example_session example_calls]
  from first a b c d
  have f1: "conn_session (fst (snd (execute example_connection session_start
          ''GET'' ''programs'' None None None))) = Some example_session"
    unfolding s by blast
  from first a k
  have f2: "sessions_created (snd (snd (execute example_connection session_start
          ''GET'' ''programs'' None None None))) = Suc 0"
    by simp
  from first a k
  have f3: "sessions_created (snd (run_calls example_calls (example_connection, session_start)))
       \<le> Suc 0"
    by simp
  from later e
  have l1: "fst (snd (execute established_connection session_start
          ''GET'' ''programs'' None None None)) = established_connection"
    by blast
  from later e k
  have l2: "sessions_created (snd (snd (execute established_connection session_start
          ''GET'' ''programs'' None None None))) = 0"
    by simp
  from a b c d f1 f2 e l1 l2 f3 show ?thesis
    by (intro conjI)
qed

subsection \<open>The member registry\<close>


lemma dict_update_snoc: "dict_update d (kvs @ [(k, v)]) = AList.update k v (dict_update d kvs)"
  by (simp add: dict_update_def)

lemma dict_update_keys:
  "map fst (dict_update d kvs) =
     map fst d @ [k \<leftarrow> rev (remdups (rev (map fst kvs))). k \<notin> fst ` set d]"
proof (induction kvs rule: rev_induct)
  case Nil
  then show ?case by (simp add: dict_update_def)
next
  case (snoc kv kvs)
  obtain k v where kv: "kv = (k, v)" by (cases kv)
  have mem: "k \<in> fst ` set (dict_update d kvs) \<longleftrightarrow> k \<in> fst ` set d \<or> k \<in> fst ` set kvs"
  proof -
    have "fst ` set (dict_update d kvs) = set (map fst (dict_update d kvs))" by simp
    also have "\<dots> = fst ` set d \<union> fst ` set kvs"
      unfolding snoc.IH by auto
    finally show ?thesis by simp
  qed
  show ?case
    unfolding kv dict_update_snoc
    by (simp add: update_keys mem snoc.IH)
qed

lemma own_members_class_body:
  "own_members (class_body names_super stmts) = declared (stmts @ classcell names_super)"
proof -
  have "class_body names_super stmts =
          dict_update [(''__module__'', Other), (''__qualname__'', Other)]
            (stmts @ classcell names_super)"
    by (simp add: class_body_def prepare_def dict_update_def)
  then show ?thesis
    by (simp add: own_members_def declared_def dict_update_keys)
qed




lemma marshal_members_append:
  "marshal_members emit (xs @ ys) = marshal_members emit xs @ marshal_members emit ys"
  by (simp add: marshal_members_def)





lemma ADTObject_registry_evaluated:
  "declared ADTObject_body =
     [''__doc__'', ''__init__'', ''coredata'', ''connection'', ''objtype'', ''package'',
      ''description'', ''language'', ''name'', ''master_language'', ''master_system'',
      ''responsible'', ''uri'', ''text'', ''reference'', ''create'', ''lock'', ''unlock'',
      ''activate'']"
  by code_simp



text \<open>A base that was not built by the metaclass contributes nothing to the registry.\<close>

lemma registry_plain_base:
  "cls_ordered (define_class name (bases @ [plain_class pname pstmts]) names_super stmts) =
     Some (declared (stmts @ classcell names_super))"
  by (simp add: define_class_def OrderedClassMembers_new_def inherited_members_def
        own_members_class_body plain_class_def)


lemma marshal_members_origin:
  "x \<in> set (marshal_members emit ks) \<Longrightarrow> \<exists>k \<in> set ks. x \<in> set (emit k)"
  by (auto simp: marshal_members_def)

text \<open>
  Claim C10, as amended. A class built by the metaclass with more than one base has
  as its registry the registry of the last base followed by its own names. A name
  that an earlier base declares or holds in its registry, and that neither the last
  base's registry nor the class's own namespace holds, is not in the registry. The
  marshaller, walking the registry, emits what the last base's members and the
  class's own members emit, and everything it emits comes from one of those names.
\<close>

theorem registry_last_base_only:
  assumes "1 < length bases"
  shows "cls_ordered (OrderedClassMembers_new name bases classdict) =
           Some (registry (last bases) @ own_members classdict)
       \<and> (\<forall>b \<in> set (butlast bases). \<forall>k \<in> set (registry b) \<union> fst ` set (cls_dict b).
             k \<notin> set (registry (last bases)) \<and> k \<notin> set (own_members classdict) \<longrightarrow>
             k \<notin> set (registry (OrderedClassMembers_new name bases classdict)))
       \<and> marshal_members emit (registry (OrderedClassMembers_new name bases classdict)) =
           marshal_members emit (registry (last bases))
           @ marshal_members emit (own_members classdict)
       \<and> (\<forall>x \<in> set (marshal_members emit
                        (registry (OrderedClassMembers_new name bases classdict))).
             \<exists>k \<in> set (registry (last bases)) \<union> set (own_members classdict).
               x \<in> set (emit k))"
proof -
  from assms have "bases \<noteq> []" by auto
  then have "inherited_members bases = registry (last bases)"
    by (simp add: inherited_members_def registry_def)
  then have r: "registry (OrderedClassMembers_new name bases classdict) =
                  registry (last bases) @ own_members classdict"
    by (simp add: OrderedClassMembers_new_def registry_def)
  have o: "\<forall>x \<in> set (marshal_members emit
                        (registry (OrderedClassMembers_new name bases classdict))).
             \<exists>k \<in> set (registry (last bases)) \<union> set (own_members classdict).
               x \<in> set (emit k)"
  proof
    fix x
    assume "x \<in> set (marshal_members emit
                       (registry (OrderedClassMembers_new name bases classdict)))"
    then have "\<exists>k \<in> set (registry (last bases) @ own_members classdict). x \<in> set (emit k)"
      unfolding r by (rule marshal_members_origin)
    then show "\<exists>k \<in> set (registry (last bases)) \<union> set (own_members classdict).
                 x \<in> set (emit k)"
      by simp
  qed
  have c: "cls_ordered (OrderedClassMembers_new name bases classdict) =
             Some (registry (last bases) @ own_members classdict)"
    using r by (simp add: OrderedClassMembers_new_def registry_def)
  have a: "\<forall>b \<in> set (butlast bases). \<forall>k \<in> set (registry b) \<union> fst ` set (cls_dict b).
             k \<notin> set (registry (last bases)) \<and> k \<notin> set (own_members classdict) \<longrightarrow>
             k \<notin> set (registry (OrderedClassMembers_new name bases classdict))"
    unfolding r by simp
  have m: "marshal_members emit (registry (OrderedClassMembers_new name bases classdict)) =
           marshal_members emit (registry (last bases))
           @ marshal_members emit (own_members classdict)"
    unfolding r by (rule marshal_members_append)
  from c a m o show ?thesis
    by (intro conjI)
qed

lemma class_C_bases:
  "1 < length [mixin_A, mixin_B]
   \<and> mixin_A \<in> set (butlast [mixin_A, mixin_B])
   \<and> last [mixin_A, mixin_B] = mixin_B"
  by simp

lemma class_C_members:
  "''alpha'' \<in> set (registry mixin_A)
   \<and> ''alpha'' \<notin> set (registry mixin_B)
   \<and> ''alpha'' \<notin> set (own_members (class_body False [(''gamma'', XmlAttribute ''x:gamma'')]))
   \<and> registry mixin_B = [''beta'']
   \<and> own_members (class_body False [(''gamma'', XmlAttribute ''x:gamma'')]) = [''gamma'']"
  by code_simp

theorem registry_last_base_only_witness:
  "1 < length [mixin_A, mixin_B]
   \<and> mixin_A \<in> set (butlast [mixin_A, mixin_B])
   \<and> ''alpha'' \<in> set (registry mixin_A)
   \<and> ''alpha'' \<notin> set (registry mixin_B)
   \<and> ''alpha'' \<notin> set (own_members (class_body False [(''gamma'', XmlAttribute ''x:gamma'')]))
   \<and> cls_ordered class_C = Some [''beta'', ''gamma'']
   \<and> ''alpha'' \<notin> set (registry class_C)
   \<and> marshal_members (\<lambda>k. [k]) (registry class_C) = [''beta'', ''gamma'']"
proof -
  have b: "1 < length [mixin_A, mixin_B]"
    by simp
  note t = registry_last_base_only
             [OF b, of "''C''" "class_body False [(''gamma'', XmlAttribute ''x:gamma'')]"
                 "\<lambda>k. [k]"]
  have c: "class_C =
             OrderedClassMembers_new ''C'' [mixin_A, mixin_B]
               (class_body False [(''gamma'', XmlAttribute ''x:gamma'')])"
    by (simp add: class_C_def define_class_def)
  from t class_C_members
  have r: "cls_ordered class_C = Some [''beta'', ''gamma'']"
    unfolding c by simp
  have m: "mixin_A \<in> set (butlast [mixin_A, mixin_B])"
    by simp
  have l: "last [mixin_A, mixin_B] = mixin_B"
    by simp
  from t have "\<forall>b \<in> set (butlast [mixin_A, mixin_B]).
                 \<forall>k \<in> set (registry b) \<union> fst ` set (cls_dict b).
                 k \<notin> set (registry (last [mixin_A, mixin_B]))
                 \<and> k \<notin> set (own_members (class_body False [(''gamma'', XmlAttribute ''x:gamma'')]))
                 \<longrightarrow> k \<notin> set (registry class_C)"
    unfolding c by blast
  with m class_C_members have a: "''alpha'' \<notin> set (registry class_C)"
    unfolding l by blast
  from t have "marshal_members (\<lambda>k. [k]) (registry class_C) =
                 marshal_members (\<lambda>k. [k]) (registry (last [mixin_A, mixin_B]))
                 @ marshal_members (\<lambda>k. [k])
                     (own_members (class_body False [(''gamma'', XmlAttribute ''x:gamma'')]))"
    unfolding c by blast
  with class_C_members have e: "marshal_members (\<lambda>k. [k]) (registry class_C) = [''beta'', ''gamma'']"
    unfolding l by (simp add: marshal_members_def)
  from class_C_bases class_C_members r a e show ?thesis
    by blast
qed

text \<open>
  Against claim C10 as stated. The earlier base \<open>A\<close> of the class \<open>Both(A, B)\<close>
  declares \<open>name\<close>, and so does the last base \<open>B\<close>: \<open>name\<close> is in the registry of
  \<open>Both\<close>, and the marshaller, walking the registry, comes to it.
\<close>

theorem registry_name_collision_counterexample:
  "cls_bases class_Both = [named_A, named_B]
   \<and> 1 < length (cls_bases class_Both)
   \<and> named_A \<in> set (butlast (cls_bases class_Both))
   \<and> map_of (cls_dict named_A) ''name'' = Some (XmlAttribute ''a:name'')
   \<and> ''name'' \<in> set (registry named_A)
   \<and> ''name'' \<in> set (registry class_Both)
   \<and> registry class_Both = [''name'', ''other'', ''own'']
   \<and> ''name'' \<in> set (marshal_members (\<lambda>k. [k]) (registry class_Both))"
  by code_simp

subsection \<open>The lock handle pattern\<close>

lemma dot_star_always: "dot_star (\<lambda>_ _. Some g) acc s = Some g"
  by (induction s arbitrary: acc) simp_all

lemma dot_star_None:
  "(\<forall>i \<le> length (first_line s). k (acc @ take i s) (drop i s) = None) \<Longrightarrow>
   dot_star k acc s = None"
proof (induction s arbitrary: acc)
  case Nil
  then show ?case by simp
next
  case (Cons c cs)
  show ?case
  proof (cases "c = newline")
    case True
    with Cons.prems show ?thesis by simp
  next
    case False
    have "dot_star k (acc @ [c]) cs = None"
    proof (rule Cons.IH, intro allI impI)
      fix i assume "i \<le> length (first_line cs)"
      with False have "Suc i \<le> length (first_line (c # cs))" by simp
      with Cons.prems have "k (acc @ take (Suc i) (c # cs)) (drop (Suc i) (c # cs)) = None"
        by blast
      then show "k ((acc @ [c]) @ take i cs) (drop i cs) = None" by simp
    qed
    moreover have "k acc (c # cs) = None"
      using Cons.prems [rule_format, of 0] by simp
    ultimately show ?thesis using False by simp
  qed
qed

lemma dot_star_unique:
  "i0 \<le> length (first_line s) \<Longrightarrow>
   (\<forall>i \<le> length (first_line s). i \<noteq> i0 \<longrightarrow> k (acc @ take i s) (drop i s) = None) \<Longrightarrow>
   dot_star k acc s = k (acc @ take i0 s) (drop i0 s)"
proof (induction s arbitrary: acc i0)
  case Nil
  then show ?case by simp
next
  case (Cons c cs)
  show ?case
  proof (cases "c = newline")
    case True
    with Cons.prems show ?thesis by simp
  next
    case False
    then have len: "length (first_line (c # cs)) = Suc (length (first_line cs))" by simp
    have shift: "\<And>i. k ((acc @ [c]) @ take i cs) (drop i cs) =
                     k (acc @ take (Suc i) (c # cs)) (drop (Suc i) (c # cs))"
      by simp
    show ?thesis
    proof (cases i0)
      case 0
      have "dot_star k (acc @ [c]) cs = None"
      proof (rule dot_star_None, intro allI impI)
        fix i assume "i \<le> length (first_line cs)"
        then have "Suc i \<le> length (first_line (c # cs))" using len by simp
        with Cons.prems(2) 0 have "k (acc @ take (Suc i) (c # cs)) (drop (Suc i) (c # cs)) = None"
          by blast
        then show "k ((acc @ [c]) @ take i cs) (drop i cs) = None" by simp
      qed
      with False 0 show ?thesis by simp
    next
      case (Suc j)
      with Cons.prems(1) len have j: "j \<le> length (first_line cs)" by simp
      have rest: "\<forall>i \<le> length (first_line cs). i \<noteq> j \<longrightarrow>
                    k ((acc @ [c]) @ take i cs) (drop i cs) = None"
      proof (intro allI impI)
        fix i assume "i \<le> length (first_line cs)" and "i \<noteq> j"
        then have "Suc i \<le> length (first_line (c # cs))" and "Suc i \<noteq> i0"
          using len Suc by simp_all
        with Cons.prems(2) have "k (acc @ take (Suc i) (c # cs)) (drop (Suc i) (c # cs)) = None"
          by blast
        then show "k ((acc @ [c]) @ take i cs) (drop i cs) = None" by simp
      qed
      have inner: "dot_star k (acc @ [c]) cs = k ((acc @ [c]) @ take j cs) (drop j cs)"
        using Cons.IH [OF j rest] .
      have zero: "k acc (c # cs) = None"
      proof -
        have "0 \<le> length (first_line (c # cs))" and "0 \<noteq> i0" using Suc by simp_all
        with Cons.prems(2) have "k (acc @ take 0 (c # cs)) (drop 0 (c # cs)) = None" by blast
        then show ?thesis by simp
      qed
      show ?thesis
        using False inner zero Suc by (simp split: option.split)
    qed
  qed
qed

lemma first_line_append:
  "newline \<notin> set a \<Longrightarrow> first_line (a @ r) = a @ first_line r"
  by (induction a) auto

lemma scrape_unique:
  fixes p q :: string
  assumes eq: "txt = a @ p @ h @ q @ b"
      and a: "newline \<notin> set a" and h: "newline \<notin> set h"
      and p: "\<forall>i \<le> length txt. prefix p (drop i txt) \<longrightarrow> i = length a"
      and q: "\<forall>j \<le> length txt. prefix q (drop j txt) \<longrightarrow> j = length a + length p + length h"
  shows "dot_star (\<lambda>_. lit p (dot_star (\<lambda>g. lit q (dot_star (\<lambda>_ _. Some g) [])) [])) [] txt
           = Some h"
proof -
  let ?K3 = "\<lambda>g. lit q (dot_star (\<lambda>_ _. Some g) [])"
  let ?K1 = "\<lambda>_ :: string. lit p (dot_star ?K3 [])"
  let ?r = "h @ q @ b"
  have fl: "length (first_line txt) \<le> length txt"
    by (rule length_takeWhile_le)
  have a_le: "length a \<le> length (first_line txt)"
    using a by (simp add: eq first_line_append)
  have outer: "dot_star ?K1 [] txt = ?K1 ([] @ take (length a) txt) (drop (length a) txt)"
  proof (rule dot_star_unique [OF a_le], intro allI impI)
    fix i assume "i \<le> length (first_line txt)" and ne: "i \<noteq> length a"
    with fl have "i \<le> length txt" by simp
    with p ne have "\<not> prefix p (drop i txt)"
      by blast
    then show "?K1 ([] @ take i txt) (drop i txt) = None"
      by (simp add: lit_def)
  qed
  have step1: "?K1 ([] @ take (length a) txt) (drop (length a) txt) = dot_star ?K3 [] ?r"
    by (simp add: eq lit_def)
  have flr: "length (first_line ?r) \<le> length ?r"
    by (rule length_takeWhile_le)
  have h_le: "length h \<le> length (first_line ?r)"
    using h by (simp add: first_line_append)
  have inner: "dot_star ?K3 [] ?r = ?K3 ([] @ take (length h) ?r) (drop (length h) ?r)"
  proof (rule dot_star_unique [OF h_le], intro allI impI)
    fix j assume j: "j \<le> length (first_line ?r)" and ne: "j \<noteq> length h"
    have d: "drop j ?r = drop (length a + length p + j) txt"
      by (simp add: eq)
    from j flr have "length a + length p + j \<le> length txt"
      by (simp add: eq)
    with q ne have "\<not> prefix q (drop (length a + length p + j) txt)"
      by auto
    with d have "\<not> prefix q (drop j ?r)" by simp
    then show "?K3 ([] @ take j ?r) (drop j ?r) = None"
      by (simp add: lit_def)
  qed
  have step2: "?K3 ([] @ take (length h) ?r) (drop (length h) ?r) = Some h"
    by (simp add: lit_def dot_star_always)
  from outer step1 inner step2 show ?thesis by simp
qed

lemma match_lock_handle_first_line:
  assumes "txt = a @ ''<LOCK_HANDLE>'' @ h @ ''</LOCK_HANDLE>'' @ b"
      and "newline \<notin> set a" and "newline \<notin> set h"
      and "\<forall>i \<le> length txt. prefix ''<LOCK_HANDLE>'' (drop i txt) \<longrightarrow> i = length a"
      and "\<forall>j \<le> length txt. prefix ''</LOCK_HANDLE>'' (drop j txt) \<longrightarrow>
             j = length a + length ''<LOCK_HANDLE>'' + length h"
  shows "match_lock_handle txt = Some h"
  unfolding match_lock_handle_def
  using assms by (rule scrape_unique)

text \<open>The pattern finds no handle when the opening tag does not start on the first
  line of the text.\<close>

lemma match_lock_handle_after_first_line:
  assumes "\<forall>i \<le> length (first_line txt). \<not> prefix ''<LOCK_HANDLE>'' (drop i txt)"
  shows "match_lock_handle txt = None"
  unfolding match_lock_handle_def
proof (rule dot_star_None, intro allI impI)
  fix i assume "i \<le> length (first_line txt)"
  with assms have "\<not> prefix ''<LOCK_HANDLE>'' (drop i txt)"
    by blast
  then show "lit ''<LOCK_HANDLE>''
               (dot_star (\<lambda>g. lit ''</LOCK_HANDLE>'' (dot_star (\<lambda>_ _. Some g) [])) [])
               (drop i txt) = None"
    by (simp only: lit_def if_False)
qed

text \<open>
  Where \<open>lock()\<close> does store the handle: the response carries the lock result
  marker, and its tags stand once in the text, on its first line.
\<close>

lemma lock_stores_handle_on_first_line:
  assumes "obj_lock self = None"
      and "lock_exchange self cn = (Inr resp, cn')"
      and "map_of (resp_headers resp) ''Content-Type'' = Some ct"
      and "sublist lock_result_marker ct"
      and "resp_text resp = a @ ''<LOCK_HANDLE>'' @ h @ ''</LOCK_HANDLE>'' @ b"
      and "newline \<notin> set a" and "newline \<notin> set h"
      and "\<forall>i \<le> length (resp_text resp).
             prefix ''<LOCK_HANDLE>'' (drop i (resp_text resp)) \<longrightarrow> i = length a"
      and "\<forall>j \<le> length (resp_text resp).
             prefix ''</LOCK_HANDLE>'' (drop j (resp_text resp)) \<longrightarrow>
             j = length a + length ''<LOCK_HANDLE>'' + length h"
  shows "lock self cn = (Inr (), self\<lparr>obj_lock := Some h\<rparr>, cn')"
proof -
  have "match_lock_handle (resp_text resp) = Some h"
    using assms(5-9) by (rule match_lock_handle_first_line)
  with assms(1-4) show ?thesis
    by (simp add: lock_def)
qed

lemma lock_single_line_response:
  "fst roundtrip_locked = Inr () \<and> obj_lock (fst (snd roundtrip_locked)) = Some ''XYZ123''"
  by code_simp

text \<open>
  Claim C3 at a lock response of two lines. The response carries the lock result
  marker and its body contains \<open><LOCK_HANDLE>XYZ123</LOCK_HANDLE>\<close>, once, on the second
  line. The pattern does not match, \<open>lock()\<close> raises the \<open>TypeError\<close> of subscripting
  \<open>None\<close>, and the lock token stays absent.
\<close>

theorem lock_multiline_response:
  "sublist ''<LOCK_HANDLE>XYZ123</LOCK_HANDLE>'' multiline_lock_body
   \<and> map_of (resp_headers (lock_response multiline_lock_body)) ''Content-Type'' =
       Some ''application/vnd.sap.as+xml; charset=utf-8; dataname=com.sap.adt.lock.Result''
   \<and> sublist lock_result_marker
       ''application/vnd.sap.as+xml; charset=utf-8; dataname=com.sap.adt.lock.Result''
   \<and> match_lock_handle multiline_lock_body = None
   \<and> fst (lock example_program multiline_start) =
       Inl (TypeError (CHR 0x27 # ''NoneType' object is not subscriptable''))
   \<and> obj_lock (fst (snd (lock example_program multiline_start))) = None"
  by code_simp

end
